theory Spec2Isabelle
  imports Main
begin

section \<open>Content values and change records\<close>

text \<open>
  \<^verbatim>\<open>ContentValue = string | boolean | number\<close> (message-types.ts). Numbers are modelled
  as integers; the operations below only copy and compare them.
\<close>

datatype ContentValue = VStr string | VBool bool | VNum int

text \<open>JavaScript truthiness of a content value, as used by \<^verbatim>\<open>||\<close> and \<^verbatim>\<open>&&\<close>.\<close>

fun truthy :: "ContentValue \<Rightarrow> bool" where
  "truthy (VStr s) = (s \<noteq> [])"
| "truthy (VBool b) = b"
| "truthy (VNum n) = (n \<noteq> 0)"

datatype change_type = TText | TImage | TToggle | TConfig

text \<open>
  The fields shared by \<^verbatim>\<open>ContentUpdate\<close> and \<^verbatim>\<open>EditorChange\<close>; the field
  \<^verbatim>\<open>type\<close> of the source is \<open>ctype\<close> here.
\<close>

record change_core =
  elementId :: string
  ctype :: change_type
  oldValue :: ContentValue
  newValue :: ContentValue
  timestamp :: int

record ContentUpdate = change_core +
  imageId :: "string option"
  optimizedImagePath :: "string option"
  imageSrcset :: "string option"
  imageAltText :: "string option"

record EditorChange = change_core +
  cid :: string
  description :: string
  scopeName :: "string option"

record EditorHistoryState =
  past :: "EditorChange list list"
  present :: "EditorChange list"
  future :: "EditorChange list list"

datatype editing_mode = Preview | Edit

record EditorState =
  siteId :: "string option"
  draftChanges :: "string \<rightharpoonup> ContentUpdate"
  originalContent :: "string \<rightharpoonup> ContentValue"
  publishedContent :: "string \<rightharpoonup> ContentValue"
  history :: EditorHistoryState
  isSaving :: bool
  isExecutingCommand :: bool
  selectedElement :: "string option"
  editingMode :: editing_mode
  iframeReady :: bool
  lastSavedAt :: "int option"
  isLoadingDrafts :: bool
  hasUnsavedEdits :: bool
  hasUnpublishedChanges :: bool

section \<open>The editor state store (editorStore)\<close>

definition emptyHistory :: EditorHistoryState where
  "emptyHistory = \<lparr>past = [], present = [], future = []\<rparr>"

definition initialState :: EditorState where
  "initialState =
     \<lparr>siteId = None, draftChanges = Map.empty, originalContent = Map.empty,
      publishedContent = Map.empty, history = emptyHistory,
      isSaving = False, isExecutingCommand = False, selectedElement = None,
      editingMode = Edit, iframeReady = False, lastSavedAt = None,
      isLoadingDrafts = False, hasUnsavedEdits = False, hasUnpublishedChanges = False\<rparr>"

text \<open>
  \<^verbatim>\<open>initializeEditor(siteId, handlers)\<close>: the handlers go to a module variable outside the
  store; the store keeps \<^verbatim>\<open>isSaving\<close>, \<^verbatim>\<open>isExecutingCommand\<close> and
  \<^verbatim>\<open>editingMode\<close> of the previous state and resets the rest.
\<close>

definition initializeEditor :: "string \<Rightarrow> EditorState \<Rightarrow> EditorState" where
  "initializeEditor sid state =
     state\<lparr>siteId := Some sid, draftChanges := Map.empty, originalContent := Map.empty,
           publishedContent := Map.empty, history := emptyHistory,
           selectedElement := None, iframeReady := False, lastSavedAt := None,
           isLoadingDrafts := False, hasUnsavedEdits := False,
           hasUnpublishedChanges := False\<rparr>"

subsection \<open>Change descriptions\<close>

text \<open>
  What the host's \<^verbatim>\<open>String(n)\<close> prints for a number and how \<^verbatim>\<open>JSON.stringify\<close>
  quotes a string are parameters of the model.
\<close>

record js_host =
  numToString :: "int \<Rightarrow> string"
  jsonQuote :: "string \<Rightarrow> string"

definition dq :: string where
  "dq = [CHR 0x22]"

fun jsString :: "js_host \<Rightarrow> ContentValue \<Rightarrow> string" where
  "jsString js (VStr s) = s"
| "jsString js (VBool b) = (if b then ''true'' else ''false'')"
| "jsString js (VNum n) = numToString js n"

fun jsonStringify :: "js_host \<Rightarrow> ContentValue \<Rightarrow> string" where
  "jsonStringify js (VStr s) = jsonQuote js s"
| "jsonStringify js (VBool b) = (if b then ''true'' else ''false'')"
| "jsonStringify js (VNum n) = numToString js n"

fun truncated :: "js_host \<Rightarrow> ContentValue \<Rightarrow> string" where
  "truncated js (VStr s) = take 30 s @ (if length s > 30 then ''...'' else '''')"
| "truncated js v = jsString js v"

definition createChangeDescription ::
  "js_host \<Rightarrow> string \<Rightarrow> change_type \<Rightarrow> ContentValue \<Rightarrow> ContentValue \<Rightarrow> string" where
  "createChangeDescription js eid ty ov nv =
     (case ty of
        TText \<Rightarrow> ''Change '' @ dq @ eid @ dq @ '' from '' @ dq @ truncated js ov @ dq
                  @ '' to '' @ dq @ truncated js nv @ dq
      | TConfig \<Rightarrow> ''Change '' @ eid @ '' from '' @ jsonStringify js ov
                  @ '' to '' @ jsonStringify js nv
      | TToggle \<Rightarrow> ''Change '' @ eid @ '' from '' @ jsonStringify js ov
                  @ '' to '' @ jsonStringify js nv
      | TImage \<Rightarrow> ''Change '' @ dq @ eid @ dq @ '' image from '' @ dq @ jsString js ov @ dq
                  @ '' to '' @ dq @ jsString js nv @ dq)"

subsection \<open>Recording a change\<close>

text \<open>
  The \<^verbatim>\<open>EditorChange\<close> built at the head of \<^verbatim>\<open>addContentChange\<close>; \<open>gid\<close> is the
  value of \<^verbatim>\<open>generateChangeId()\<close>.
\<close>

definition mkChange :: "js_host \<Rightarrow> string \<Rightarrow> ContentUpdate \<Rightarrow> EditorChange" where
  "mkChange js gid update =
     \<lparr>elementId = elementId update, ctype = ctype update, oldValue = oldValue update,
      newValue = newValue update, timestamp = timestamp update,
      cid = gid,
      description = createChangeDescription js (elementId update) (ctype update)
                      (oldValue update) (newValue update),
      scopeName = Some (elementId update)\<rparr>"

definition addContentChange ::
  "js_host \<Rightarrow> string \<Rightarrow> ContentUpdate \<Rightarrow> EditorState \<Rightarrow> EditorState" where
  "addContentChange js gid update state =
     (let change = mkChange js gid update;
          newOriginalContent =
            (if originalContent state (elementId update) = None
             then (originalContent state)(elementId update \<mapsto> oldValue update)
             else originalContent state);
          newPublishedContent =
            (if publishedContent state (elementId update) = None
             then (publishedContent state)(elementId update \<mapsto> oldValue update)
             else publishedContent state);
          updatedChange =
            update\<lparr>oldValue :=
              (case publishedContent state (elementId update) of
                 Some v \<Rightarrow> if truthy v then v else oldValue update
               | None \<Rightarrow> oldValue update)\<rparr>;
          newDraftChanges = (draftChanges state)(elementId update \<mapsto> updatedChange);
          newHistory =
            \<lparr>past = past (history state) @ [present (history state)],
             present = [change],
             future = []\<rparr>
      in state\<lparr>draftChanges := newDraftChanges,
               originalContent := newOriginalContent,
               publishedContent := newPublishedContent,
               history := newHistory,
               hasUnsavedEdits := True,
               hasUnpublishedChanges := True\<rparr>)"

text \<open>A run of \<^verbatim>\<open>addContentChange\<close> calls, each with its generated id.\<close>

fun recordAll :: "js_host \<Rightarrow> (string \<times> ContentUpdate) list \<Rightarrow> EditorState \<Rightarrow> EditorState" where
  "recordAll js [] state = state"
| "recordAll js ((gid, update) # rest) state = recordAll js rest (addContentChange js gid update state)"

subsection \<open>Saving, publishing, clearing\<close>

definition markDraftsSaved :: "int \<Rightarrow> EditorState \<Rightarrow> EditorState" where
  "markDraftsSaved now state = state\<lparr>lastSavedAt := Some now, hasUnsavedEdits := False\<rparr>"

definition markDraftsPublished :: "EditorState \<Rightarrow> EditorState" where
  "markDraftsPublished state =
     state\<lparr>publishedContent :=
              (\<lambda>k. case draftChanges state k of
                      Some change \<Rightarrow> Some (newValue change)
                    | None \<Rightarrow> publishedContent state k),
           hasUnpublishedChanges := False\<rparr>"

definition clearEditor :: "EditorState \<Rightarrow> EditorState" where
  "clearEditor state =
     state\<lparr>draftChanges := Map.empty, originalContent := Map.empty,
           publishedContent := Map.empty, history := emptyHistory,
           hasUnsavedEdits := False, hasUnpublishedChanges := False\<rparr>"

definition setSavingState :: "bool \<Rightarrow> EditorState \<Rightarrow> EditorState" where
  "setSavingState b state = state\<lparr>isSaving := b\<rparr>"

section \<open>Undo, redo and inbound change reports (useEditorState)\<close>

text \<open>
  An \<^verbatim>\<open>UPDATE_CONTENT\<close> command handed to \<^verbatim>\<open>bridge.sendToIframe\<close>: element id and
  content. \<open>undo\<close> and \<open>redo\<close> return the commands they issue, in order, next to the
  new store state; \<open>hasBridge\<close> says whether \<^verbatim>\<open>bridge\<close> is non-null. The clock
  (\<^verbatim>\<open>Date.now()\<close>) is read once per operation.
\<close>

type_synonym update_command = "string \<times> ContentValue"

text \<open>The first \<^verbatim>\<open>setState\<close> of both operations: raise the in-flight flag.\<close>

definition beginCommand :: "EditorState \<Rightarrow> EditorState" where
  "beginCommand state = state\<lparr>isExecutingCommand := True\<rparr>"

definition undoDraft :: "int \<Rightarrow> EditorChange \<Rightarrow> (string \<rightharpoonup> ContentUpdate) \<Rightarrow> (string \<rightharpoonup> ContentUpdate)" where
  "undoDraft now change m =
     (case m (elementId change) of
        Some existingChange \<Rightarrow>
          m(elementId change \<mapsto> existingChange\<lparr>newValue := oldValue change, timestamp := now\<rparr>)
      | None \<Rightarrow> m)"

text \<open>
  The store states written by the successive \<^verbatim>\<open>setState\<close> calls of \<^verbatim>\<open>undo\<close>, oldest
  first (none when \<^verbatim>\<open>undo\<close> returns at its guard), and the commands it sends.
\<close>

definition undoTrace ::
  "bool \<Rightarrow> int \<Rightarrow> EditorState \<Rightarrow> EditorState list \<times> update_command list" where
  "undoTrace hasBridge now state =
     (if past (history state) = [] \<or> isExecutingCommand state then ([], [])
      else
        let running = beginCommand state;
            previousChanges = last (past (history state));
            newPast = butlast (past (history state));
            newFuture = present (history state) # future (history state);
            sent = (if hasBridge
                    then map (\<lambda>change. (elementId change, oldValue change))
                           (rev (present (history state)))
                    else []);
            newDraftChanges = fold (undoDraft now) (present (history state)) (draftChanges state)
        in ([running,
             running\<lparr>draftChanges := newDraftChanges,
               history := \<lparr>past = newPast, present = previousChanges, future = newFuture\<rparr>,
               isExecutingCommand := False\<rparr>],
            sent))"

text \<open>\<^verbatim>\<open>undo\<close>: the state the store is left in, and the commands sent.\<close>

definition undo :: "bool \<Rightarrow> int \<Rightarrow> EditorState \<Rightarrow> EditorState \<times> update_command list" where
  "undo hasBridge now state =
     (last (state # fst (undoTrace hasBridge now state)), snd (undoTrace hasBridge now state))"

definition redoDraft :: "int \<Rightarrow> EditorChange \<Rightarrow> (string \<rightharpoonup> ContentUpdate) \<Rightarrow> (string \<rightharpoonup> ContentUpdate)" where
  "redoDraft now change m =
     (case m (elementId change) of
        Some existingChange \<Rightarrow>
          m(elementId change \<mapsto> existingChange\<lparr>newValue := newValue change, timestamp := now\<rparr>)
      | None \<Rightarrow>
          m(elementId change \<mapsto>
              \<lparr>elementId = elementId change, ctype = ctype change,
               oldValue = oldValue change, newValue = newValue change, timestamp = now,
               imageId = None, optimizedImagePath = None, imageSrcset = None,
               imageAltText = None\<rparr>))"

text \<open>The same for \<^verbatim>\<open>redo\<close>.\<close>

definition redoTrace ::
  "bool \<Rightarrow> int \<Rightarrow> EditorState \<Rightarrow> EditorState list \<times> update_command list" where
  "redoTrace hasBridge now state =
     (if future (history state) = [] \<or> isExecutingCommand state then ([], [])
      else
        let running = beginCommand state;
            nextChanges = hd (future (history state));
            newPast = past (history state) @ [present (history state)];
            newFuture = tl (future (history state));
            sent = (if hasBridge
                    then map (\<lambda>change. (elementId change, newValue change)) nextChanges
                    else []);
            newDraftChanges = fold (redoDraft now) nextChanges (draftChanges state)
        in ([running,
             running\<lparr>draftChanges := newDraftChanges,
               history := \<lparr>past = newPast, present = nextChanges, future = newFuture\<rparr>,
               isExecutingCommand := False\<rparr>],
            sent))"

definition redo :: "bool \<Rightarrow> int \<Rightarrow> EditorState \<Rightarrow> EditorState \<times> update_command list" where
  "redo hasBridge now state =
     (last (state # fst (redoTrace hasBridge now state)), snd (redoTrace hasBridge now state))"

text \<open>
  The payload of an inbound \<^verbatim>\<open>CONTENT_CHANGED\<close> message; every field is optional in
  \<^verbatim>\<open>IframeMessage\<close>.
\<close>

record change_payload =
  p_elementId :: "string option"
  p_newContent :: "ContentValue option"
  p_oldContent :: "ContentValue option"
  p_type :: "string option"

text \<open>
  The old value the handler settles on: the message's \<^verbatim>\<open>oldContent\<close> when given, else
  the \<^verbatim>\<open>newValue\<close> of the element's draft, else the empty string.
\<close>

definition actualOldValue ::
  "(string \<rightharpoonup> ContentUpdate) \<Rightarrow> string \<Rightarrow> ContentValue option \<Rightarrow> ContentValue" where
  "actualOldValue drafts eid oldContent =
     (case oldContent of
        Some v \<Rightarrow> v
      | None \<Rightarrow> (case drafts eid of
                   Some currentDraftChange \<Rightarrow> newValue currentDraftChange
                 | None \<Rightarrow> VStr []))"

definition contentUpdate ::
  "string \<Rightarrow> change_type \<Rightarrow> ContentValue \<Rightarrow> ContentValue \<Rightarrow> int \<Rightarrow> ContentUpdate" where
  "contentUpdate eid ty ov nv ts =
     \<lparr>elementId = eid, ctype = ty, oldValue = ov, newValue = nv, timestamp = ts,
      imageId = None, optimizedImagePath = None, imageSrcset = None, imageAltText = None\<rparr>"

text \<open>
  \<^verbatim>\<open>handleContentChanged\<close>. The handler is a closure over the values the hooks
  \<^verbatim>\<open>useIsExecutingCommand\<close> and \<^verbatim>\<open>useEditorDraftChanges\<close> returned at the render
  after which it was registered: \<open>executing\<close> and \<open>drafts\<close>. It does not read the store;
  the store it writes to is \<open>state\<close>, which may have moved on since that render.
\<close>

definition handleContentChanged ::
  "js_host \<Rightarrow> string \<Rightarrow> int \<Rightarrow> bool \<Rightarrow> (string \<rightharpoonup> ContentUpdate) \<Rightarrow> change_payload
     \<Rightarrow> EditorState \<Rightarrow> EditorState" where
  "handleContentChanged js gid now executing drafts payload state =
     (if executing then state
      else case (p_elementId payload, p_newContent payload) of
        (Some eid, Some newContent) \<Rightarrow>
          if eid = [] then state
          else
            let old = actualOldValue drafts eid (p_oldContent payload);
                ty = (case p_type payload of None \<Rightarrow> ''text'' | Some t \<Rightarrow> t)
            in if old = newContent then state
               else if ty = ''text'' then
                 addContentChange js gid (contentUpdate eid TText old newContent now) state
               else if ty = ''config'' then
                 addContentChange js gid (contentUpdate eid TConfig old newContent now) state
               else if ty = ''toggle'' then
                 addContentChange js gid (contentUpdate eid TToggle old newContent now) state
               else if ty = ''image'' then
                 addContentChange js gid (contentUpdate eid TImage old newContent now) state
               else state
      | _ \<Rightarrow> state)"

text \<open>
  \<^verbatim>\<open>saveDraft\<close>: \<open>unsaved\<close> is the captured \<^verbatim>\<open>hasUnsavedChanges\<close>,
  \<open>ok\<close> the outcome of the request to the content API. The result carries the store and
  whether the call threw. Building the request body reads the draft map and writes nothing.
\<close>

definition saveDraft :: "bool \<Rightarrow> bool \<Rightarrow> int \<Rightarrow> EditorState \<Rightarrow> EditorState \<times> bool" where
  "saveDraft unsaved ok now state =
     (if \<not> unsaved then (state, False)
      else if ok then (setSavingState False (markDraftsSaved now (setSavingState True state)), False)
      else (setSavingState False (setSavingState True state), True))"

text \<open>The three store operations that touch the publication flag, as one step function.\<close>

datatype store_op = Record string ContentUpdate | SaveDraft int | MarkPublished

fun storeStep :: "js_host \<Rightarrow> store_op \<Rightarrow> EditorState \<Rightarrow> EditorState" where
  "storeStep js (Record gid update) state = addContentChange js gid update state"
| "storeStep js (SaveDraft now) state = fst (saveDraft (hasUnsavedEdits state) True now state)"
| "storeStep js MarkPublished state = markDraftsPublished state"

section \<open>Draft/publish reconciliation (loadDraftContent)\<close>

datatype block_status = StatusDraft | StatusPublished | StatusEmpty

text \<open>
  \<^verbatim>\<open>DraftContentBlock\<close>. An optional field that is \<^verbatim>\<open>undefined\<close> or \<^verbatim>\<open>null\<close>
  is \<open>None\<close>.
\<close>

record DraftContentBlock =
  blockValue :: string
  publishedValue :: "string option"
  draftValue :: "string option"
  status :: block_status
  blockUnpublished :: bool
  publishedAt :: "string option"

text \<open>Truthiness of an optional string: present and not empty.\<close>

fun present_str :: "string option \<Rightarrow> bool" where
  "present_str None = False"
| "present_str (Some s) = (s \<noteq> [])"

text \<open>The value of \<^verbatim>\<open>x || ''\<close> for an optional string \<^verbatim>\<open>x\<close>.\<close>

fun orEmpty :: "string option \<Rightarrow> string" where
  "orEmpty None = []"
| "orEmpty (Some s) = s"

definition imported :: "DraftContentBlock \<Rightarrow> bool" where
  "imported blockData = (blockUnpublished blockData \<or> status blockData = StatusDraft)"

definition blockOldValue :: "DraftContentBlock \<Rightarrow> string" where
  "blockOldValue blockData =
     (if present_str (publishedValue blockData) \<and> present_str (draftValue blockData)
      then orEmpty (publishedValue blockData)
      else if present_str (draftValue blockData) \<and> \<not> present_str (publishedValue blockData)
      then []
      else if status blockData = StatusPublished then blockValue blockData else [])"

definition blockNewValue :: "DraftContentBlock \<Rightarrow> string" where
  "blockNewValue blockData =
     (if present_str (publishedValue blockData) \<and> present_str (draftValue blockData)
      then orEmpty (draftValue blockData)
      else if present_str (draftValue blockData) \<and> \<not> present_str (publishedValue blockData)
      then orEmpty (draftValue blockData)
      else blockValue blockData)"

text \<open>
  The three maps under construction. \<open>parseTime\<close> stands for
  \<^verbatim>\<open>new Date(s).getTime()\<close>.
\<close>

type_synonym draft_maps =
  "(string \<rightharpoonup> ContentUpdate) \<times> (string \<rightharpoonup> ContentValue) \<times> (string \<rightharpoonup> ContentValue)"

definition blockUpdate :: "(string \<Rightarrow> int) \<Rightarrow> int \<Rightarrow> string \<Rightarrow> DraftContentBlock \<Rightarrow> ContentUpdate" where
  "blockUpdate parseTime now blockKey blockData =
     contentUpdate blockKey TText (VStr (blockOldValue blockData)) (VStr (blockNewValue blockData))
       (if present_str (publishedAt blockData)
        then parseTime (orEmpty (publishedAt blockData)) else now)"

definition importBlock ::
  "(string \<Rightarrow> int) \<Rightarrow> int \<Rightarrow> string \<times> DraftContentBlock \<Rightarrow> draft_maps \<Rightarrow> draft_maps" where
  "importBlock parseTime now entry maps =
     (case (entry, maps) of
        ((blockKey, blockData), (newDraftChanges, newOriginalContent, newPublishedContent)) \<Rightarrow>
          if imported blockData
          then (newDraftChanges(blockKey \<mapsto> blockUpdate parseTime now blockKey blockData),
                newOriginalContent(blockKey \<mapsto> VStr (orEmpty (publishedValue blockData))),
                newPublishedContent(blockKey \<mapsto> VStr (orEmpty (publishedValue blockData))))
          else maps)"

text \<open>
  The content of a \<^verbatim>\<open>DraftContentResponse\<close>: pages in \<^verbatim>\<open>Object.entries\<close> order, each
  with its blocks in \<^verbatim>\<open>Object.entries\<close> order.
\<close>

type_synonym draft_content = "(string \<times> (string \<times> DraftContentBlock) list) list"

definition allBlocks :: "draft_content \<Rightarrow> (string \<times> DraftContentBlock) list" where
  "allBlocks content = concat (map snd content)"

definition importedBlocks :: "draft_content \<Rightarrow> (string \<times> DraftContentBlock) list" where
  "importedBlocks content = filter (\<lambda>entry. imported (snd entry)) (allBlocks content)"

definition reconcile :: "(string \<Rightarrow> int) \<Rightarrow> int \<Rightarrow> draft_content \<Rightarrow> draft_maps" where
  "reconcile parseTime now content =
     fold (\<lambda>page maps. fold (importBlock parseTime now) (snd page) maps) content
       (Map.empty, Map.empty, Map.empty)"











section \<open>The frame bridge (IframeBridge)\<close>

datatype editor_msg_type =
  EDITOR_READY | UPDATE_CONTENT | SELECT_ELEMENT | ENTER_EDIT_MODE | EXIT_EDIT_MODE

record editor_payload =
  pl_siteId :: "string option"
  pl_editorMode :: "bool option"
  pl_selector :: "string option"
  pl_content :: "ContentValue option"
  pl_mode :: "editing_mode option"
  pl_elementId :: "string option"

text \<open>A message as handed to \<^verbatim>\<open>sendToIframe\<close>, without id and timestamp.\<close>

record outgoing =
  msgType :: editor_msg_type
  payload :: editor_payload

record EditorMessage = outgoing +
  messageId :: string
  msgTimestamp :: int

text \<open>
  The data of an inbound message event, as far as the listener reads it; \<open>'p\<close> is the
  payload, which the bridge passes on unread.
\<close>

record 'p inbound =
  in_type :: "string option"
  in_messageId :: "string option"
  in_timestamp :: "int option"
  in_payload :: 'p

text \<open>
  \<open>iframeRef\<close> is \<open>None\<close> while no ref object is bound; \<open>Some w\<close> is a bound ref, and
  \<open>w\<close> tells whether \<^verbatim>\<open>ref.current?.contentWindow\<close> is there. Handlers are opaque
  values of type \<open>'h\<close>.
\<close>

record 'h IframeBridge =
  messageHandlers :: "string \<rightharpoonup> 'h"
  allowedOrigins :: "string list"
  messageQueue :: "EditorMessage list"
  iframeRef :: "bool option"
  isReady :: bool
  isInitialized :: bool

text \<open>
  What a bridge operation does to the outside: a message posted to the frame's window, or a
  registered handler called with an inbound message.
\<close>

datatype ('h, 'p) effect = Posted EditorMessage | Called 'h "'p inbound"

text \<open>The constructor; \<open>hasWindow\<close> is \<^verbatim>\<open>typeof window !== 'undefined'\<close>.\<close>

definition newBridge :: "bool \<Rightarrow> 'h IframeBridge" where
  "newBridge hasWindow =
     \<lparr>messageHandlers = Map.empty, allowedOrigins = [], messageQueue = [],
      iframeRef = None, isReady = False, isInitialized = hasWindow\<rparr>"

definition setAllowedOrigins :: "string list \<Rightarrow> 'h IframeBridge \<Rightarrow> 'h IframeBridge" where
  "setAllowedOrigins origins b = b\<lparr>allowedOrigins := origins\<rparr>"

definition setIframeRef :: "bool \<Rightarrow> 'h IframeBridge \<Rightarrow> 'h IframeBridge" where
  "setIframeRef w b = b\<lparr>iframeRef := Some w\<rparr>"

definition on :: "string \<Rightarrow> 'h \<Rightarrow> 'h IframeBridge \<Rightarrow> 'h IframeBridge" where
  "on messageType handler b = b\<lparr>messageHandlers := (messageHandlers b)(messageType \<mapsto> handler)\<rparr>"

definition off :: "string \<Rightarrow> 'h IframeBridge \<Rightarrow> 'h IframeBridge" where
  "off messageType b = b\<lparr>messageHandlers := (messageHandlers b)(messageType := None)\<rparr>"

definition sendMessage :: "'h IframeBridge \<Rightarrow> EditorMessage \<Rightarrow> ('h, 'p) effect list" where
  "sendMessage b message = (if iframeRef b = Some True then [Posted message] else [])"

text \<open>The loop of \<^verbatim>\<open>flushMessageQueue\<close>: shift the head, send it, until the queue is empty.\<close>

fun flushLoop ::
  "'h IframeBridge \<Rightarrow> EditorMessage list \<Rightarrow> ('h, 'p) effect list \<Rightarrow> ('h, 'p) effect list" where
  "flushLoop b [] sent = sent"
| "flushLoop b (message # queue) sent = flushLoop b queue (sent @ sendMessage b message)"

definition flushMessageQueue :: "'h IframeBridge \<Rightarrow> 'h IframeBridge \<times> ('h, 'p) effect list" where
  "flushMessageQueue b = (b\<lparr>messageQueue := []\<rparr>, flushLoop b (messageQueue b) [])"

text \<open>
  \<^verbatim>\<open>sendToIframe\<close>; \<open>mid\<close> is the generated message id and \<open>now\<close> the clock.
\<close>

definition stamp :: "string \<Rightarrow> int \<Rightarrow> outgoing \<Rightarrow> EditorMessage" where
  "stamp mid now message =
     \<lparr>msgType = msgType message, payload = payload message, messageId = mid, msgTimestamp = now\<rparr>"

definition sendToIframe ::
  "string \<Rightarrow> int \<Rightarrow> outgoing \<Rightarrow> 'h IframeBridge \<Rightarrow> 'h IframeBridge \<times> ('h, 'p) effect list" where
  "sendToIframe mid now message b =
     (if \<not> isInitialized b then (b, [])
      else if \<not> isReady b then (b\<lparr>messageQueue := messageQueue b @ [stamp mid now message]\<rparr>, [])
      else (b, sendMessage b (stamp mid now message)))"

text \<open>The structural check of the listener: all three envelope fields truthy.\<close>

definition validEnvelope :: "'p inbound \<Rightarrow> bool" where
  "validEnvelope message =
     (present_str (in_type message) \<and> present_str (in_messageId message)
      \<and> (case in_timestamp message of None \<Rightarrow> False | Some t \<Rightarrow> t \<noteq> 0))"

text \<open>
  The window's message listener, installed by the constructor of an initialized bridge.
  \<open>origin\<close> is \<^verbatim>\<open>event.origin\<close>; \<open>data\<close> is \<^verbatim>\<open>event.data\<close>, \<open>None\<close> when it is
  \<^verbatim>\<open>null\<close> or \<^verbatim>\<open>undefined\<close> (reading its type then throws inside the
  \<^verbatim>\<open>try\<close>).
\<close>

definition receive ::
  "string \<Rightarrow> 'p inbound option \<Rightarrow> 'h IframeBridge \<Rightarrow> 'h IframeBridge \<times> ('h, 'p) effect list" where
  "receive origin data b =
     (if \<not> isInitialized b then (b, [])
      else if allowedOrigins b \<noteq> [] \<and> origin \<notin> set (allowedOrigins b) then (b, [])
      else case data of
        None \<Rightarrow> (b, [])
      | Some message \<Rightarrow>
          if \<not> validEnvelope message then (b, [])
          else
            let flushed = (if in_type message = Some ''IFRAME_READY''
                           then flushMessageQueue (b\<lparr>isReady := True\<rparr>) else (b, []));
                called = (case messageHandlers (fst flushed) (orEmpty (in_type message)) of
                            Some handler \<Rightarrow> [Called handler message]
                          | None \<Rightarrow> [])
            in (fst flushed, snd flushed @ called))"

definition destroy :: "'h IframeBridge \<Rightarrow> 'h IframeBridge" where
  "destroy b = b\<lparr>messageHandlers := Map.empty, messageQueue := [], isReady := False\<rparr>"

datatype ('h, 'p) bridge_op =
  SetAllowedOrigins "string list"
| SetIframeRef bool
| On string 'h
| Off string
| SendToIframe string int outgoing
| Receive string "'p inbound option"
| Destroy

fun bridgeStep ::
  "('h, 'p) bridge_op \<Rightarrow> 'h IframeBridge \<Rightarrow> 'h IframeBridge \<times> ('h, 'p) effect list" where
  "bridgeStep (SetAllowedOrigins origins) b = (setAllowedOrigins origins b, [])"
| "bridgeStep (SetIframeRef w) b = (setIframeRef w b, [])"
| "bridgeStep (On t h) b = (on t h b, [])"
| "bridgeStep (Off t) b = (off t b, [])"
| "bridgeStep (SendToIframe mid now message) b = sendToIframe mid now message b"
| "bridgeStep (Receive origin data) b = receive origin data b"
| "bridgeStep Destroy b = (destroy b, [])"

text \<open>A sequence of operations, with the effects in the order they happen.\<close>

fun bridgeRun ::
  "('h, 'p) bridge_op list \<Rightarrow> 'h IframeBridge \<Rightarrow> 'h IframeBridge \<times> ('h, 'p) effect list" where
  "bridgeRun [] b = (b, [])"
| "bridgeRun (op # ops) b =
     (let first = bridgeStep op b; rest = bridgeRun ops (fst first)
      in (fst rest, snd first @ snd rest))"

fun postedOf :: "('h, 'p) effect list \<Rightarrow> EditorMessage list" where
  "postedOf [] = []"
| "postedOf (Posted message # es) = message # postedOf es"
| "postedOf (Called h message # es) = postedOf es"

fun calledOf :: "('h, 'p) effect list \<Rightarrow> ('h \<times> 'p inbound) list" where
  "calledOf [] = []"
| "calledOf (Posted message # es) = calledOf es"
| "calledOf (Called h message # es) = (h, message) # calledOf es"

fun isSetAllowedOrigins :: "('h, 'p) bridge_op \<Rightarrow> bool" where
  "isSetAllowedOrigins (SetAllowedOrigins origins) = True"
| "isSetAllowedOrigins _ = False"

text \<open>An operation that leaves an empty allow-list empty.\<close>

fun keepsOpen :: "('h, 'p) bridge_op \<Rightarrow> bool" where
  "keepsOpen (SetAllowedOrigins origins) = (origins = [])"
| "keepsOpen _ = True"

definition sends :: "(string \<times> int \<times> outgoing) list \<Rightarrow> ('h, 'p) bridge_op list" where
  "sends ms = map (\<lambda>m. SendToIframe (fst m) (fst (snd m)) (snd (snd m))) ms"

definition stamped :: "(string \<times> int \<times> outgoing) list \<Rightarrow> EditorMessage list" where
  "stamped ms = map (\<lambda>m. stamp (fst m) (fst (snd m)) (snd (snd m))) ms"

section \<open>The preview-side agent (ClientEditorBridge)\<close>

subsection \<open>The document\<close>

record rect =
  r_top :: int
  r_left :: int
  r_right :: int
  r_bottom :: int
  r_width :: int
  r_height :: int
  r_x :: int
  r_y :: int

text \<open>
  An element of the previewed document with the attributes and properties the agent reads or
  writes. \<open>parent\<close> is the position of the parent element in the document; the text of an
  element is held as one string. \<open>editListeners\<close> counts the blur/keydown listener pairs
  that \<^verbatim>\<open>enterEditMode\<close> has attached.
\<close>

record element =
  tagName :: string
  dataEditorId :: "string option"
  dataEditorType :: "string option"
  dataEditorPage :: "string option"
  dataEditable :: "string option"
  dataEditorSelected :: "string option"
  role :: "string option"
  classList :: "string list"
  textContent :: string
  src :: string
  alt :: string
  title :: string
  contentEditable :: "string option"
  parent :: "nat option"
  bounds :: rect
  editListeners :: nat

text \<open>
  The document: its elements in document order, the focused element and the element whose
  contents the selection spans.
\<close>

record document =
  elements :: "element list"
  focused :: "nat option"
  selectionIn :: "nat option"

fun findIndex :: "('a \<Rightarrow> bool) \<Rightarrow> 'a list \<Rightarrow> nat option" where
  "findIndex P [] = None"
| "findIndex P (x # xs) = (if P x then Some 0 else map_option Suc (findIndex P xs))"

text \<open>\<^verbatim>\<open>document.querySelector('[data-editor-id="..."]')\<close>: the first match in document order.\<close>

definition byEditorId :: "string \<Rightarrow> document \<Rightarrow> nat option" where
  "byEditorId eid d = findIndex (\<lambda>e. dataEditorId e = Some eid) (elements d)"

text \<open>
  \<^verbatim>\<open>el.closest(selector)\<close>: the element itself or its nearest ancestor that matches. The
  walk is bounded by the number of elements, which a tree never exceeds.
\<close>

fun closestFrom :: "nat \<Rightarrow> (element \<Rightarrow> bool) \<Rightarrow> element list \<Rightarrow> nat \<Rightarrow> nat option" where
  "closestFrom 0 P els i = None"
| "closestFrom (Suc fuel) P els i =
     (if i \<ge> length els then None
      else if P (els ! i) then Some i
      else case parent (els ! i) of
             None \<Rightarrow> None
           | Some p \<Rightarrow> closestFrom fuel P els p)"

definition closest :: "(element \<Rightarrow> bool) \<Rightarrow> document \<Rightarrow> nat \<Rightarrow> nat option" where
  "closest P d i = closestFrom (length (elements d)) P (elements d) i"

definition isEditable :: "element \<Rightarrow> bool" where
  "isEditable e = (dataEditable e = Some ''true'')"

text \<open>
  The selector \<^verbatim>\<open>button, a, input, select, textarea, [role="button"], [data-editable]\<close>.
\<close>

definition isInteractive :: "element \<Rightarrow> bool" where
  "isInteractive e =
     (tagName e \<in> {''BUTTON'', ''A'', ''INPUT'', ''SELECT'', ''TEXTAREA''}
      \<or> role e = Some ''button'' \<or> dataEditable e \<noteq> None)"

definition modifyElement :: "nat \<Rightarrow> (element \<Rightarrow> element) \<Rightarrow> document \<Rightarrow> document" where
  "modifyElement i f d =
     (if i < length (elements d) then d\<lparr>elements := (elements d)[i := f (elements d ! i)]\<rparr> else d)"

subsection \<open>The agent\<close>

record element_data =
  ed_id :: string
  ed_tagName :: string
  ed_textContent :: string
  ed_attributes :: "(string \<times> string) list"
  ed_bounds :: rect

datatype report =
  IframeReady
| ElementSelected element_data
| ElementDeselected
| ContentChanged "string option" "ContentValue option"

record agent_message =
  report :: report
  am_messageId :: string
  am_timestamp :: int

text \<open>
  The agent with the document it lives in. \<open>outbox\<close> holds the messages posted to
  \<^verbatim>\<open>window.parent\<close>, oldest first; \<open>prevented\<close> counts the click events whose default
  action and propagation the agent has stopped, \<open>keysPrevented\<close> the key presses whose
  default action it has stopped.
\<close>

record agent =
  isInEditorMode :: bool
  editorOrigin :: "string option"
  selectedEl :: "nat option"
  doc :: document
  outbox :: "agent_message list"
  prevented :: nat
  keysPrevented :: nat

text \<open>
  The environment: \<open>embedded\<close> is \<^verbatim>\<open>window.parent !== window\<close>, \<open>hasParent\<close> is the
  truthiness of \<^verbatim>\<open>window.parent\<close>, \<open>querySelector\<close> resolves a CSS selector
  (\<open>None\<close> when nothing matches or the selector is invalid), \<open>stampOf n\<close> gives the message
  id and the clock for the \<open>n\<close>-th message sent, \<open>host\<close> the host's number printing.
\<close>

record agent_env =
  embedded :: bool
  hasParent :: bool
  querySelector :: "string \<Rightarrow> document \<Rightarrow> nat option"
  stampOf :: "nat \<Rightarrow> string \<times> int"
  host :: js_host

definition sendToEditor :: "agent_env \<Rightarrow> report \<Rightarrow> agent \<Rightarrow> agent" where
  "sendToEditor env r a =
     (if \<not> isInEditorMode a \<or> \<not> hasParent env then a
      else a\<lparr>outbox := outbox a @
                [\<lparr>report = r, am_messageId = fst (stampOf env (length (outbox a))),
                  am_timestamp = snd (stampOf env (length (outbox a)))\<rparr>]\<rparr>)"

definition detectEditorMode :: "agent_env \<Rightarrow> agent \<Rightarrow> agent" where
  "detectEditorMode env a =
     (if embedded env then sendToEditor env IframeReady (a\<lparr>isInEditorMode := True\<rparr>) else a)"

text \<open>The constructor: both listeners are installed, then embeddedness is detected.\<close>

definition newAgent :: "agent_env \<Rightarrow> document \<Rightarrow> agent" where
  "newAgent env d =
     detectEditorMode env
       \<lparr>isInEditorMode = False, editorOrigin = None, selectedEl = None, doc = d,
        outbox = [], prevented = 0, keysPrevented = 0\<rparr>"

definition highlightEditableElements :: "agent \<Rightarrow> agent" where
  "highlightEditableElements a =
     a\<lparr>doc := (doc a)\<lparr>elements :=
          map (\<lambda>e. if isEditable e then e\<lparr>title := ''Click to edit''\<rparr> else e)
            (elements (doc a))\<rparr>\<rparr>"

definition elementDataOf :: "element \<Rightarrow> element_data" where
  "elementDataOf e =
     \<lparr>ed_id = orEmpty (dataEditorId e),
      ed_tagName = tagName e,
      ed_textContent = textContent e,
      ed_attributes =
        [(''data-editor-id'', orEmpty (dataEditorId e)),
         (''data-editor-type'', orEmpty (dataEditorType e)),
         (''data-editor-page'', orEmpty (dataEditorPage e))]
        @ (if tagName e = ''IMG'' then [(''src'', src e), (''alt'', alt e)] else []),
      ed_bounds = bounds e\<rparr>"

text \<open>\<^verbatim>\<open>selectElement\<close> on an element that has been found.\<close>

definition selectFound :: "agent_env \<Rightarrow> nat \<Rightarrow> agent \<Rightarrow> agent" where
  "selectFound env i a =
     (let cleared = (case selectedEl a of
                       Some j \<Rightarrow> modifyElement j (\<lambda>e. e\<lparr>dataEditorSelected := None\<rparr>) (doc a)
                     | None \<Rightarrow> doc a);
          marked = modifyElement i (\<lambda>e. e\<lparr>dataEditorSelected := Some ''true''\<rparr>) cleared
      in sendToEditor env (ElementSelected (elementDataOf (elements marked ! i)))
           (a\<lparr>selectedEl := Some i, doc := marked\<rparr>))"

text \<open>\<^verbatim>\<open>selectElement\<close> called with a selector string (\<open>None\<close>: no string was given).\<close>

definition selectBySelector :: "agent_env \<Rightarrow> string option \<Rightarrow> agent \<Rightarrow> agent" where
  "selectBySelector env selector a =
     (case selector of
        None \<Rightarrow> a
      | Some sel \<Rightarrow>
          (case querySelector env sel (doc a) of
             None \<Rightarrow> a
           | Some i \<Rightarrow> if i < length (elements (doc a)) then selectFound env i a else a))"

definition deselectElement :: "agent_env \<Rightarrow> agent \<Rightarrow> agent" where
  "deselectElement env a =
     sendToEditor env ElementDeselected
       (case selectedEl a of
          Some j \<Rightarrow> a\<lparr>doc := modifyElement j (\<lambda>e. e\<lparr>dataEditorSelected := None\<rparr>) (doc a),
                     selectedEl := None\<rparr>
        | None \<Rightarrow> a)"

text \<open>What a template literal or an attribute assignment makes of an optional value.\<close>

definition interpolate :: "js_host \<Rightarrow> ContentValue option \<Rightarrow> string" where
  "interpolate js v = (case v of None \<Rightarrow> ''undefined'' | Some c \<Rightarrow> jsString js c)"

definition updateElementContent ::
  "agent_env \<Rightarrow> string option \<Rightarrow> ContentValue option \<Rightarrow> agent \<Rightarrow> agent" where
  "updateElementContent env eid content a =
     (case byEditorId (case eid of None \<Rightarrow> ''undefined'' | Some s \<Rightarrow> s) (doc a) of
        None \<Rightarrow> a
      | Some i \<Rightarrow>
          let e = elements (doc a) ! i;
              changed =
                (if dataEditorType e = Some ''image'' \<and> tagName e = ''IMG''
                 then modifyElement i (\<lambda>e. e\<lparr>src := interpolate (host env) content\<rparr>) (doc a)
                 else case content of
                        Some (VStr s) \<Rightarrow> modifyElement i (\<lambda>e. e\<lparr>textContent := s\<rparr>) (doc a)
                      | _ \<Rightarrow> doc a)
          in sendToEditor env (ContentChanged eid content) (a\<lparr>doc := changed\<rparr>))"

definition enterEditMode :: "string option \<Rightarrow> agent \<Rightarrow> agent" where
  "enterEditMode eid a =
     (case byEditorId (case eid of None \<Rightarrow> ''undefined'' | Some s \<Rightarrow> s) (doc a) of
        None \<Rightarrow> a
      | Some i \<Rightarrow>
          if dataEditorType (elements (doc a) ! i) = Some ''text''
          then a\<lparr>doc := (modifyElement i
                            (\<lambda>e. e\<lparr>contentEditable := Some ''true'',
                                   editListeners := editListeners e + 1\<rparr>) (doc a))
                          \<lparr>focused := Some i, selectionIn := Some i\<rparr>\<rparr>
          else a)"

definition exitStep :: "agent_env \<Rightarrow> nat \<Rightarrow> agent \<Rightarrow> agent" where
  "exitStep env i a =
     (let e = elements (doc a) ! i
      in if contentEditable e = Some ''true''
         then
           let a1 = a\<lparr>doc := modifyElement i (\<lambda>e. e\<lparr>contentEditable := Some ''false''\<rparr>) (doc a)\<rparr>
           in if present_str (dataEditorId e)
              then sendToEditor env
                     (ContentChanged (dataEditorId e) (Some (VStr (textContent e)))) a1
              else a1
         else a)"

definition exitEditMode :: "agent_env \<Rightarrow> agent \<Rightarrow> agent" where
  "exitEditMode env a = fold (exitStep env) [0..<length (elements (doc a))] a"

text \<open>
  An inbound message as far as the agent reads it. A missing \<^verbatim>\<open>payload\<close> is \<open>None\<close>;
  reading a field of it then throws, and the listener's \<^verbatim>\<open>catch\<close> ends the handling.
\<close>

record command_payload =
  c_selector :: "string option"
  c_elementId :: "string option"
  c_content :: "ContentValue option"

record command =
  c_type :: string
  c_payload :: "command_payload option"

definition handleEditorMessage :: "agent_env \<Rightarrow> command \<Rightarrow> agent \<Rightarrow> agent" where
  "handleEditorMessage env message a =
     (if c_type message = ''EDITOR_READY'' then highlightEditableElements (a\<lparr>isInEditorMode := True\<rparr>)
      else if c_type message = ''SELECT_ELEMENT'' then
        (case c_payload message of None \<Rightarrow> a | Some p \<Rightarrow> selectBySelector env (c_selector p) a)
      else if c_type message = ''UPDATE_CONTENT'' then
        (case c_payload message of
           None \<Rightarrow> a
         | Some p \<Rightarrow> updateElementContent env (c_elementId p) (c_content p) a)
      else if c_type message = ''ENTER_EDIT_MODE'' then
        (case c_payload message of None \<Rightarrow> a | Some p \<Rightarrow> enterEditMode (c_elementId p) a)
      else if c_type message = ''EXIT_EDIT_MODE'' then exitEditMode env a
      else a)"

fun includesStr :: "string \<Rightarrow> string \<Rightarrow> bool" where
  "includesStr [] sub = (sub = [])"
| "includesStr (c # cs) sub = (take (length sub) (c # cs) = sub \<or> includesStr cs sub)"

text \<open>
  The window's message listener; \<open>data\<close> is \<open>None\<close> when \<^verbatim>\<open>event.data\<close> is
  \<^verbatim>\<open>null\<close> or \<^verbatim>\<open>undefined\<close>.
\<close>

definition onMessage :: "agent_env \<Rightarrow> string \<Rightarrow> command option \<Rightarrow> agent \<Rightarrow> agent" where
  "onMessage env origin data a =
     (let a1 = (if \<not> present_str (editorOrigin a) \<and> includesStr origin ''localhost:3000''
                then a\<lparr>editorOrigin := Some origin\<rparr> else a)
      in if present_str (editorOrigin a1) \<and> editorOrigin a1 \<noteq> Some origin then a1
         else case data of
                None \<Rightarrow> a1
              | Some message \<Rightarrow> handleEditorMessage env message a1)"

text \<open>The document's click listener; \<open>target\<close> is the position of the clicked element.\<close>

definition onClick :: "agent_env \<Rightarrow> nat \<Rightarrow> agent \<Rightarrow> agent" where
  "onClick env target a =
     (if \<not> isInEditorMode a then a
      else if target \<ge> length (elements (doc a)) then a
      else case closest isEditable (doc a) target of
        Some editableElement \<Rightarrow> selectFound env editableElement (a\<lparr>prevented := prevented a + 1\<rparr>)
      | None \<Rightarrow>
          let t = elements (doc a) ! target;
              isBodyOrBackground =
                (tagName t = ''BODY'' \<or> tagName t = ''HTML'' \<or> ''bg-'' \<in> set (classList t)
                 \<or> closest isInteractive (doc a) target = None)
          in if isBodyOrBackground \<and> selectedEl a \<noteq> Some target then deselectElement env a
             else a)"

text \<open>
  The listeners that \<^verbatim>\<open>enterEditMode\<close> attaches to an element. On blur each attached
  blur listener runs \<^verbatim>\<open>exitEditMode\<close>. On a key press each attached keydown listener,
  for Enter without Shift, stops the default action and calls \<^verbatim>\<open>element.blur()\<close>,
  which takes the focus away from a focused element and so lets its blur listeners run.
\<close>

definition onBlur :: "agent_env \<Rightarrow> nat \<Rightarrow> agent \<Rightarrow> agent" where
  "onBlur env i a =
     (if i < length (elements (doc a))
      then ((exitEditMode env) ^^ (editListeners (elements (doc a) ! i))) a
      else a)"

definition onKeyDown :: "agent_env \<Rightarrow> nat \<Rightarrow> string \<Rightarrow> bool \<Rightarrow> agent \<Rightarrow> agent" where
  "onKeyDown env i key shiftKey a =
     (if i < length (elements (doc a)) \<and> editListeners (elements (doc a) ! i) > 0
         \<and> key = ''Enter'' \<and> \<not> shiftKey
      then
        let a1 = a\<lparr>keysPrevented := keysPrevented a + 1\<rparr>
        in if focused (doc a1) = Some i
           then onBlur env i (a1\<lparr>doc := (doc a1)\<lparr>focused := None\<rparr>\<rparr>)
           else a1
      else a)"

text \<open>
  The events the agent's listeners receive: a click on an element, a window message with its
  origin and data, and blur and key events on an element.
\<close>

datatype agent_event =
  Click nat
| Message string "command option"
| Blur nat
| KeyDown nat string bool

fun agentStep :: "agent_env \<Rightarrow> agent_event \<Rightarrow> agent \<Rightarrow> agent" where
  "agentStep env (Click target) a = onClick env target a"
| "agentStep env (Message origin data) a = onMessage env origin data a"
| "agentStep env (Blur i) a = onBlur env i a"
| "agentStep env (KeyDown i key shiftKey) a = onKeyDown env i key shiftKey a"

fun agentRun :: "agent_env \<Rightarrow> agent_event list \<Rightarrow> agent \<Rightarrow> agent" where
  "agentRun env [] a = a"
| "agentRun env (ev # evs) a = agentRun env evs (agentStep env ev a)"

fun isClick :: "agent_event \<Rightarrow> bool" where
  "isClick (Click target) = True"
| "isClick _ = False"

fun isEditorReady :: "agent_event \<Rightarrow> bool" where
  "isEditorReady (Message origin (Some message)) = (c_type message = ''EDITOR_READY'')"
| "isEditorReady _ = False"

text \<open>The agent has not been switched on and has left no trace outside the document.\<close>

definition inactive :: "agent \<Rightarrow> bool" where
  "inactive a = (\<not> isInEditorMode a \<and> outbox a = [] \<and> prevented a = 0)"

section \<open>Sample data\<close>

definition sampleHost :: js_host where
  "sampleHost = \<lparr>numToString = (\<lambda>n. ''0''), jsonQuote = (\<lambda>s. s)\<rparr>"

definition headlineEdit :: ContentUpdate where
  "headlineEdit = contentUpdate ''headline'' TText (VStr ''Hello'') (VStr ''Hello there'') 1"

definition subheadEdit :: ContentUpdate where
  "subheadEdit = contentUpdate ''subhead'' TText (VStr []) (VStr ''New'') 2"

definition confirmation :: change_payload where
  "confirmation = \<lparr>p_elementId = Some ''headline'', p_newContent = Some (VStr ''Hello there''),
                    p_oldContent = None, p_type = None\<rparr>"








definition readyMessage :: "unit inbound" where
  "readyMessage = \<lparr>in_type = Some ''IFRAME_READY'', in_messageId = Some ''msg_1'',
                    in_timestamp = Some 1, in_payload = ()\<rparr>"

definition changedMessage :: "unit inbound" where
  "changedMessage = \<lparr>in_type = Some ''CONTENT_CHANGED'', in_messageId = Some ''msg_2'',
                    in_timestamp = Some 2, in_payload = ()\<rparr>"

definition emptyPayload :: editor_payload where
  "emptyPayload = \<lparr>pl_siteId = None, pl_editorMode = None, pl_selector = None,
                    pl_content = None, pl_mode = None, pl_elementId = None\<rparr>"

definition updateOf :: "string \<Rightarrow> string \<Rightarrow> outgoing" where
  "updateOf eid s = \<lparr>msgType = UPDATE_CONTENT,
      payload = emptyPayload\<lparr>pl_elementId := Some eid, pl_content := Some (VStr s)\<rparr>\<rparr>"

definition threeSends :: "(string \<times> int \<times> outgoing) list" where
  "threeSends = [(''m1'', 1, updateOf ''headline'' ''A''), (''m2'', 2, updateOf ''subhead'' ''B''),
                 (''m3'', 3, updateOf ''headline'' ''C'')]"

definition standalone :: agent_env where
  "standalone = \<lparr>embedded = False, hasParent = True, querySelector = (\<lambda>sel d. None),
                  stampOf = (\<lambda>n. (''msg'', 0)), host = sampleHost\<rparr>"

definition noRect :: rect where
  "noRect = \<lparr>r_top = 0, r_left = 0, r_right = 0, r_bottom = 0, r_width = 0, r_height = 0,
              r_x = 0, r_y = 0\<rparr>"

definition headline :: element where
  "headline = \<lparr>tagName = ''H1'', dataEditorId = Some ''headline'', dataEditorType = Some ''text'',
                dataEditorPage = Some ''home'', dataEditable = Some ''true'',
                dataEditorSelected = None, role = None, classList = [], textContent = ''Welcome'',
                src = [], alt = [], title = [], contentEditable = None, parent = None,
                bounds = noRect, editListeners = 0\<rparr>"

definition page :: document where
  "page = \<lparr>elements = [headline], focused = None, selectionIn = None\<rparr>"

definition updateCommand :: command where
  "updateCommand = \<lparr>c_type = ''UPDATE_CONTENT'',
      c_payload = Some \<lparr>c_selector = None, c_elementId = Some ''headline'',
                        c_content = Some (VStr ''Changed'')\<rparr>\<rparr>"

definition readyCommand :: command where
  "readyCommand = \<lparr>c_type = ''EDITOR_READY'', c_payload = None\<rparr>"

section \<open>Properties of the change history\<close>

lemma recordAll_snoc:
  "recordAll js (changes @ [(gid, update)]) state
     = addContentChange js gid update (recordAll js changes state)"
  by (induction changes arbitrary: state) auto

text \<open>
  The history after a non-empty run of recordings, from any state: the old \<open>present\<close>
  joins \<open>past\<close>, followed by one single-change entry for every recording but the last.
\<close>

lemma recordAll_shape:
  "changes \<noteq> [] \<Longrightarrow>
     past (history (recordAll js changes state)) =
       past (history state) @ present (history state)
         # map (\<lambda>c. [mkChange js (fst c) (snd c)]) (butlast changes)
     \<and> present (history (recordAll js changes state)) =
         [mkChange js (fst (last changes)) (snd (last changes))]
     \<and> future (history (recordAll js changes state)) = []"
proof (induction changes rule: rev_induct)
  case Nil
  then show ?case by simp
next
  case (snoc c changes)
  obtain gid update where c: "c = (gid, update)" by (cases c)
  show ?case
  proof (cases "changes = []")
    case True
    then show ?thesis by (simp add: c addContentChange_def Let_def)
  next
    case False
    have "map (\<lambda>c. [mkChange js (fst c) (snd c)]) (butlast changes @ [last changes]) =
          map (\<lambda>c. [mkChange js (fst c) (snd c)]) changes"
      using False by simp
    then have split: "map (\<lambda>c. [mkChange js (fst c) (snd c)]) (butlast changes)
          @ [[mkChange js (fst (last changes)) (snd (last changes))]] =
          map (\<lambda>c. [mkChange js (fst c) (snd c)]) changes"
      by simp
    from snoc.IH False split show ?thesis
      by (simp add: c recordAll_snoc addContentChange_def Let_def butlast_append)
  qed
qed

text \<open>
  Claim C1, as stated, asks for \<open>past.length = N - 1\<close> after \<open>N\<close> changes to distinct
  elements on a freshly initialized editor. Already the first recording moves the empty
  initial \<open>present\<close> onto \<open>past\<close>: after one change \<open>past\<close> has one entry, not none.
\<close>

theorem past_length_counterexample:
  "length (past (history (recordAll sampleHost [(''c1'', headlineEdit)]
       (initializeEditor ''site'' initialState))))
   \<noteq> length [(''c1'', headlineEdit)] - 1"
  by (simp add: addContentChange_def Let_def initializeEditor_def emptyHistory_def)

text \<open>
  Claim C1, amended: starting from a freshly initialized editor state, after \<open>N \<ge> 1\<close>
  changes to \<open>N\<close> distinct element ids recorded by \<^verbatim>\<open>addContentChange\<close>, with no undo
  or redo in between, \<open>past\<close> has \<open>N\<close> entries (the empty initial entry, then one
  single-change entry for each of the first \<open>N - 1\<close> changes), \<open>present\<close> is the single-entry
  list holding the \<open>N\<close>-th change, and \<open>future\<close> is empty.
\<close>

theorem recordAll_history:
  fixes js changes sid state0
  defines "recorded \<equiv> history (recordAll js changes (initializeEditor sid state0))"
  assumes "changes \<noteq> []" and "distinct (map (\<lambda>c. elementId (snd c)) changes)"
  shows "length (past recorded) = length changes
     \<and> past recorded = [] # map (\<lambda>c. [mkChange js (fst c) (snd c)]) (butlast changes)
     \<and> present recorded = [mkChange js (fst (last changes)) (snd (last changes))]
     \<and> future recorded = []"
  unfolding recorded_def
  using recordAll_shape [OF assms(2), of js "initializeEditor sid state0"] assms(2)
  by (simp add: initializeEditor_def emptyHistory_def)

theorem recordAll_history_witness:
  "[(''c1'', headlineEdit), (''c2'', subheadEdit)] \<noteq> []
   \<and> distinct (map (\<lambda>c. elementId (snd c)) [(''c1'', headlineEdit), (''c2'', subheadEdit)])
   \<and> length (past (history (recordAll sampleHost [(''c1'', headlineEdit), (''c2'', subheadEdit)]
        (initializeEditor ''site'' initialState)))) = 2
   \<and> present (history (recordAll sampleHost [(''c1'', headlineEdit), (''c2'', subheadEdit)]
        (initializeEditor ''site'' initialState))) = [mkChange sampleHost ''c2'' subheadEdit]
   \<and> future (history (recordAll sampleHost [(''c1'', headlineEdit), (''c2'', subheadEdit)]
        (initializeEditor ''site'' initialState))) = []"
proof -
  have ne: "[(''c1'', headlineEdit), (''c2'', subheadEdit)] \<noteq> []" by simp
  have di: "distinct (map (\<lambda>c. elementId (snd c)) [(''c1'', headlineEdit), (''c2'', subheadEdit)])"
    by (simp add: headlineEdit_def subheadEdit_def contentUpdate_def)
  from recordAll_history [OF ne di, where js = sampleHost and sid = "''site''"
      and ?state0.0 = initialState] ne di
  show ?thesis by simp
qed

text \<open>
  Claim C3: for every editor state, recording a new change with \<^verbatim>\<open>addContentChange\<close>
  leaves \<open>history.future\<close> empty, however many redo entries it held before.
\<close>

theorem addContentChange_clears_future:
  "future (history (addContentChange js gid update state)) = []"
  by (simp add: addContentChange_def Let_def)

text \<open>After an undo the redo list holds the undone entry; the next recording discards it.\<close>

theorem addContentChange_clears_future_witness:
  "future (history (fst (undo True 3 (addContentChange sampleHost ''c1'' headlineEdit initialState))))
     = [[mkChange sampleHost ''c1'' headlineEdit]]
   \<and> future (history (addContentChange sampleHost ''c2'' subheadEdit
       (fst (undo True 3 (addContentChange sampleHost ''c1'' headlineEdit initialState))))) = []"
  using addContentChange_clears_future [of sampleHost "''c2''" subheadEdit
      "fst (undo True 3 (addContentChange sampleHost ''c1'' headlineEdit initialState))"]
  by (simp add: undo_def undoTrace_def addContentChange_def Let_def initialState_def emptyHistory_def)

text \<open>
  Claim C2, as stated, has the history after undo and redo differ from the history of the
  state in which nothing was undone. \<^verbatim>\<open>redo\<close> takes back exactly what \<^verbatim>\<open>undo\<close>
  did to \<open>past\<close>, \<open>present\<close> and \<open>future\<close>: after the round trip the history is the one
  the recording left.
\<close>

theorem history_unchanged_counterexample:
  "history (fst (redo True 4 (fst (undo True 3
       (addContentChange sampleHost ''c1'' headlineEdit initialState)))))
     = history (addContentChange sampleHost ''c1'' headlineEdit initialState)
   \<and> history (fst (undo True 3 (addContentChange sampleHost ''c1'' headlineEdit initialState)))
     \<noteq> history (addContentChange sampleHost ''c1'' headlineEdit initialState)"
  by (simp add: redo_def redoTrace_def undo_def undoTrace_def addContentChange_def Let_def
      initialState_def emptyHistory_def beginCommand_def mkChange_def)

text \<open>
  Claim C2, amended: for every change recorded with \<^verbatim>\<open>addContentChange\<close>, in every
  editor state, undo followed by redo leaves the draft entry of the change's element with the
  change's \<open>newValue\<close>, and the history (\<open>past\<close>, \<open>present\<close>, \<open>future\<close>) is the same
  as in the state in which nothing was undone. (When a command is already in flight both
  operations do nothing.)
\<close>

theorem undo_redo_round_trip:
  "map_option newValue
     (draftChanges (fst (redo hasBridge2 now2 (fst (undo hasBridge1 now1
        (addContentChange js gid update state))))) (elementId update))
   = Some (newValue update)
   \<and> history (fst (redo hasBridge2 now2 (fst (undo hasBridge1 now1
        (addContentChange js gid update state)))))
     = history (addContentChange js gid update state)"
  by (cases "isExecutingCommand state")
     (simp_all add: redo_def redoTrace_def undo_def undoTrace_def addContentChange_def Let_def
        beginCommand_def undoDraft_def redoDraft_def mkChange_def)

text \<open>In between, after the undo alone, the draft entry carries the old value.\<close>

theorem undo_redo_round_trip_witness:
  "map_option newValue (draftChanges (fst (undo True 3
       (addContentChange sampleHost ''c1'' headlineEdit initialState))) ''headline'')
     = Some (VStr ''Hello'')
   \<and> map_option newValue (draftChanges (fst (redo True 4 (fst (undo True 3
       (addContentChange sampleHost ''c1'' headlineEdit initialState))))) ''headline'')
     = Some (VStr ''Hello there'')
   \<and> future (history (fst (redo True 4 (fst (undo True 3
       (addContentChange sampleHost ''c1'' headlineEdit initialState)))))) = []"
  using undo_redo_round_trip [of True 4 True 3 sampleHost "''c1''" headlineEdit initialState]
  by (simp add: undo_def undoTrace_def addContentChange_def Let_def initialState_def
      emptyHistory_def headlineEdit_def contentUpdate_def undoDraft_def beginCommand_def
      mkChange_def)

text \<open>
  Claim C8: over \<^verbatim>\<open>addContentChange\<close>, \<^verbatim>\<open>saveDraft\<close> and
  \<^verbatim>\<open>markDraftsPublished\<close>, the flag \<open>hasUnpublishedChanges\<close> is true right after any
  recorded change, is left as it was by \<^verbatim>\<open>saveDraft\<close> (so it stays true after a
  successful save), is false after \<^verbatim>\<open>markDraftsPublished\<close>, and no step other than
  \<^verbatim>\<open>markDraftsPublished\<close> turns it from true to false.
\<close>

theorem unpublished_flag:
  "hasUnpublishedChanges (addContentChange js gid update state)
   \<and> hasUnpublishedChanges (fst (saveDraft unsaved ok now state)) = hasUnpublishedChanges state
   \<and> \<not> hasUnpublishedChanges (markDraftsPublished state)
   \<and> (hasUnpublishedChanges state \<and> \<not> hasUnpublishedChanges (storeStep js op state)
        \<longrightarrow> op = MarkPublished)"
  by (cases op)
     (simp_all add: addContentChange_def Let_def saveDraft_def markDraftsSaved_def
        markDraftsPublished_def setSavingState_def)

theorem unpublished_flag_witness:
  "hasUnpublishedChanges (addContentChange sampleHost ''c1'' headlineEdit initialState)
   \<and> hasUnpublishedChanges (fst (saveDraft True True 5
        (addContentChange sampleHost ''c1'' headlineEdit initialState)))
   \<and> \<not> hasUnpublishedChanges (storeStep sampleHost MarkPublished
        (addContentChange sampleHost ''c1'' headlineEdit initialState))"
  using unpublished_flag [of sampleHost "''c1''" headlineEdit initialState True True 5 MarkPublished]
    unpublished_flag [of sampleHost "''c1''" headlineEdit
      "addContentChange sampleHost ''c1'' headlineEdit initialState" True True 5 MarkPublished]
  by simp




text \<open>
  Claim C10: when no command is in flight and the old value the handler settles on (the
  message's \<^verbatim>\<open>oldContent\<close> if given, else the \<open>newValue\<close> of the element's draft, else
  the empty string) equals the message's \<^verbatim>\<open>newContent\<close>, the report records nothing: the
  editor state, with its draft map, history and both change flags, is unchanged.
\<close>

theorem unchanged_report_records_nothing:
  assumes "p_elementId msg = Some eid" and "p_newContent msg = Some newContent"
    and "actualOldValue drafts eid (p_oldContent msg) = newContent"
  shows "handleContentChanged js gid now False drafts msg state = state"
  using assms by (simp add: handleContentChanged_def Let_def)

theorem unchanged_report_records_nothing_witness:
  "p_elementId confirmation = Some ''headline''
   \<and> p_newContent confirmation = Some (VStr ''Hello there'')
   \<and> actualOldValue
        (draftChanges (addContentChange sampleHost ''c1'' headlineEdit initialState))
        ''headline'' (p_oldContent confirmation) = VStr ''Hello there''
   \<and> handleContentChanged sampleHost ''c2'' 6 False
        (draftChanges (addContentChange sampleHost ''c1'' headlineEdit initialState))
        confirmation (addContentChange sampleHost ''c1'' headlineEdit initialState)
       = addContentChange sampleHost ''c1'' headlineEdit initialState"
proof -
  have e: "p_elementId confirmation = Some ''headline''"
    and n: "p_newContent confirmation = Some (VStr ''Hello there'')"
    by (simp_all add: confirmation_def)
  have r: "actualOldValue
        (draftChanges (addContentChange sampleHost ''c1'' headlineEdit initialState))
        ''headline'' (p_oldContent confirmation) = VStr ''Hello there''"
    by (simp add: actualOldValue_def confirmation_def addContentChange_def Let_def
        headlineEdit_def contentUpdate_def initialState_def)
  from unchanged_report_records_nothing [OF e n r] e n r show ?thesis by simp
qed

section \<open>Properties of reconciliation\<close>

lemma fold_pages:
  "fold (\<lambda>page maps. fold f (snd page) maps) content maps = fold f (allBlocks content) maps"
  by (induction content arbitrary: maps) (simp_all add: allBlocks_def)

lemma reconcile_flat:
  "reconcile parseTime now content =
     fold (importBlock parseTime now) (allBlocks content) (Map.empty, Map.empty, Map.empty)"
  by (simp add: reconcile_def fold_pages)



lemma importBlock_dom:
  "dom (fst (importBlock parseTime now entry maps)) =
     dom (fst maps) \<union> (if imported (snd entry) then {fst entry} else {})
   \<and> dom (fst (snd (importBlock parseTime now entry maps))) =
     dom (fst (snd maps)) \<union> (if imported (snd entry) then {fst entry} else {})
   \<and> dom (snd (snd (importBlock parseTime now entry maps))) =
     dom (snd (snd maps)) \<union> (if imported (snd entry) then {fst entry} else {})"
  by (cases entry; cases maps) (auto simp: importBlock_def)

lemma fold_importBlock_dom:
  "dom (fst (fold (importBlock parseTime now) bs maps)) =
     dom (fst maps) \<union> fst ` set (filter (\<lambda>entry. imported (snd entry)) bs)
   \<and> dom (fst (snd (fold (importBlock parseTime now) bs maps))) =
     dom (fst (snd maps)) \<union> fst ` set (filter (\<lambda>entry. imported (snd entry)) bs)
   \<and> dom (snd (snd (fold (importBlock parseTime now) bs maps))) =
     dom (snd (snd maps)) \<union> fst ` set (filter (\<lambda>entry. imported (snd entry)) bs)"
proof (induction bs arbitrary: maps)
  case Nil
  then show ?case by simp
next
  case (Cons entry bs)
  show ?case
    using Cons.IH [of "importBlock parseTime now entry maps"]
      importBlock_dom [of parseTime now entry maps]
    by auto
qed






lemma reconcile_dom:
  "dom (fst (reconcile parseTime now content)) = fst ` set (importedBlocks content)
   \<and> dom (fst (snd (reconcile parseTime now content))) = fst ` set (importedBlocks content)
   \<and> dom (snd (snd (reconcile parseTime now content))) = fst ` set (importedBlocks content)"
  using fold_importBlock_dom [of parseTime now "allBlocks content" "(Map.empty, Map.empty, Map.empty)"]
  by (simp add: reconcile_flat importedBlocks_def)

text \<open>
  \<^verbatim>\<open>newDraftChanges.size > 0\<close> holds exactly when some block was imported.
\<close>

lemma reconcile_size:
  "(importedBlocks content \<noteq> []) = (fst (reconcile parseTime now content) \<noteq> Map.empty)"
proof -
  have "dom (fst (reconcile parseTime now content)) = fst ` set (importedBlocks content)"
    using reconcile_dom [of parseTime now content] by simp
  then have "(dom (fst (reconcile parseTime now content)) = {}) = (importedBlocks content = [])"
    by simp
  then show ?thesis
    by (simp add: dom_eq_empty_conv)
qed










section \<open>Properties of the frame bridge\<close>

lemma postedOf_append: "postedOf (es @ fs) = postedOf es @ postedOf fs"
  by (induction es rule: postedOf.induct) simp_all

lemma postedOf_Posted: "postedOf (map Posted q) = q"
  by (induction q) simp_all

lemma flushLoop_bound:
  "iframeRef b = Some True \<Longrightarrow> flushLoop b q sent = sent @ map Posted q"
  by (induction q arbitrary: sent) (simp_all add: sendMessage_def)

lemma flushLoop_unbound:
  "iframeRef b \<noteq> Some True \<Longrightarrow> flushLoop b q sent = sent"
  by (induction q arbitrary: sent) (simp_all add: sendMessage_def)

lemma calledOf_append: "calledOf (es @ fs) = calledOf es @ calledOf fs"
  by (induction es rule: calledOf.induct) simp_all

lemma calledOf_flushLoop: "calledOf (flushLoop b q sent) = calledOf sent"
  by (induction q arbitrary: sent) (simp_all add: sendMessage_def calledOf_append)

lemma sends_Cons:
  "sends (m # ms) = SendToIframe (fst m) (fst (snd m)) (snd (snd m)) # sends ms"
  by (simp add: sends_def)

lemma stamped_Cons:
  "stamped (m # ms) = stamp (fst m) (fst (snd m)) (snd (snd m)) # stamped ms"
  by (simp add: stamped_def)

lemma bridgeRun_sends:
  fixes b :: "'h IframeBridge"
  assumes "isInitialized b" and "\<not> isReady b"
  shows "bridgeRun (sends ms) b
           = (b\<lparr>messageQueue := messageQueue b @ stamped ms\<rparr>, ([] :: ('h, 'p) effect list))"
  using assms
proof (induction ms arbitrary: b)
  case Nil
  then show ?case by (simp add: sends_def stamped_def)
next
  case (Cons m ms)
  let ?b1 = "b\<lparr>messageQueue := messageQueue b @ [stamp (fst m) (fst (snd m)) (snd (snd m))]\<rparr>"
  from Cons.prems
  have step: "sendToIframe (fst m) (fst (snd m)) (snd (snd m)) b
                = (?b1, ([] :: ('h, 'p) effect list))"
    by (simp add: sendToIframe_def)
  from Cons.prems have "isInitialized ?b1" "\<not> isReady ?b1" by simp_all
  from Cons.IH [OF this] step show ?case
    by (simp add: sends_Cons stamped_Cons Let_def)
qed

text \<open>
  Claim C5, as stated, has every message sent before readiness posted to the frame at the
  flush, none dropped. \<^verbatim>\<open>sendMessage\<close> drops a message when no frame window is bound:
  on a bridge that was never given a frame ref, three queued messages leave the queue at the
  flush and none is posted.
\<close>

theorem unbound_frame_counterexample:
  "postedOf (snd (receive ''http://localhost:3001'' (Some readyMessage)
      (fst (bridgeRun (sends threeSends :: (nat, unit) bridge_op list) (newBridge True))))) = []
   \<and> messageQueue (fst (receive ''http://localhost:3001'' (Some readyMessage)
      (fst (bridgeRun (sends threeSends :: (nat, unit) bridge_op list) (newBridge True))))) = []
   \<and> stamped threeSends \<noteq> []"
  by (simp add: sends_def threeSends_def newBridge_def sendToIframe_def Let_def receive_def
      readyMessage_def validEnvelope_def flushMessageQueue_def sendMessage_def stamped_def)

text \<open>
  Claim C5, amended: on a client-side bridge that is not yet ready, every message passed to
  \<^verbatim>\<open>sendToIframe\<close> is enqueued and nothing is posted; and provided a frame with a
  content window is bound when a valid \<^verbatim>\<open>IFRAME_READY\<close> from an accepted origin arrives,
  the queue is flushed in FIFO order: the messages queued before, then the \<open>k\<close> new ones,
  are posted in their send order, none is dropped, the queue is empty and the bridge ready
  afterwards, and a second readiness signal posts nothing again.
\<close>

theorem queued_messages_flushed_in_order:
  fixes b :: "'h IframeBridge" and ready :: "'p inbound" and ms origin
  defines "queued \<equiv> bridgeRun (sends ms :: ('h, 'p) bridge_op list) b"
  defines "flushed \<equiv> receive origin (Some ready) (fst queued)"
  defines "again \<equiv> receive origin (Some ready) (fst flushed)"
  assumes "isInitialized b" and "\<not> isReady b" and "iframeRef b = Some True"
    and "allowedOrigins b = [] \<or> origin \<in> set (allowedOrigins b)"
    and "validEnvelope ready" and "in_type ready = Some ''IFRAME_READY''"
  shows "snd queued = []
     \<and> messageQueue (fst queued) = messageQueue b @ stamped ms
     \<and> postedOf (snd flushed) = messageQueue b @ stamped ms
     \<and> messageQueue (fst flushed) = []
     \<and> isReady (fst flushed)
     \<and> postedOf (snd again) = []"
proof -
  let ?b1 = "b\<lparr>messageQueue := messageQueue b @ stamped ms\<rparr>"
  have run: "bridgeRun (sends ms :: ('h, 'p) bridge_op list) b = (?b1, [])"
    using assms(4,5) by (rule bridgeRun_sends)
  have called: "postedOf (case messageHandlers x t of
                   Some handler \<Rightarrow> [Called handler ready] | None \<Rightarrow> []) = []"
    for x :: "'a IframeBridge" and t
    by (cases "messageHandlers x t") simp_all
  let ?b2 = "?b1\<lparr>isReady := True, messageQueue := []\<rparr>"
  have first: "fst (receive origin (Some ready) ?b1) = ?b2"
    using assms by (auto simp: receive_def flushMessageQueue_def Let_def)
  have posted: "postedOf (snd (receive origin (Some ready) ?b1)) = messageQueue b @ stamped ms"
    using assms
    by (auto simp: receive_def flushMessageQueue_def Let_def flushLoop_bound postedOf_append
        postedOf_Posted called)
  have again: "postedOf (snd (receive origin (Some ready) ?b2)) = []"
    using assms
    by (auto simp: receive_def flushMessageQueue_def Let_def postedOf_append called)
  show ?thesis
    unfolding queued_def flushed_def again_def run using first posted again by simp
qed

theorem queued_messages_flushed_in_order_witness:
  "isInitialized (setIframeRef True (newBridge True :: nat IframeBridge))
   \<and> \<not> isReady (setIframeRef True (newBridge True :: nat IframeBridge))
   \<and> iframeRef (setIframeRef True (newBridge True :: nat IframeBridge)) = Some True
   \<and> validEnvelope readyMessage \<and> in_type readyMessage = Some ''IFRAME_READY''
   \<and> postedOf (snd (receive ''http://localhost:3001'' (Some readyMessage)
        (fst (bridgeRun (sends threeSends :: (nat, unit) bridge_op list) (setIframeRef True (newBridge True))))))
       = [stamp ''m1'' 1 (updateOf ''headline'' ''A''), stamp ''m2'' 2 (updateOf ''subhead'' ''B''),
          stamp ''m3'' 3 (updateOf ''headline'' ''C'')]"
proof -
  let ?b = "setIframeRef True (newBridge True :: nat IframeBridge)"
  have h: "isInitialized ?b" "\<not> isReady ?b" "iframeRef ?b = Some True"
    "allowedOrigins ?b = [] \<or> ''http://localhost:3001'' \<in> set (allowedOrigins ?b)"
    "validEnvelope readyMessage" "in_type readyMessage = Some ''IFRAME_READY''"
    by (simp_all add: setIframeRef_def newBridge_def readyMessage_def validEnvelope_def)
  have q: "messageQueue ?b = []"
    by (simp add: setIframeRef_def newBridge_def)
  from queued_messages_flushed_in_order [OF h, of threeSends] h q
  show ?thesis by (simp add: stamped_def threeSends_def)
qed

lemma bridgeStep_keeps_origins:
  "\<not> isSetAllowedOrigins op \<Longrightarrow> allowedOrigins (fst (bridgeStep op b)) = allowedOrigins b"
  by (cases op)
     (auto simp: setIframeRef_def on_def off_def sendToIframe_def receive_def destroy_def
        flushMessageQueue_def Let_def split: option.splits)

lemma bridgeRun_keeps_origins:
  "\<forall>op \<in> set ops. \<not> isSetAllowedOrigins op \<Longrightarrow>
     allowedOrigins (fst (bridgeRun ops b)) = allowedOrigins b"
  by (induction ops arbitrary: b) (simp_all add: Let_def bridgeStep_keeps_origins)

lemma bridgeStep_keeps_open:
  "keepsOpen op \<Longrightarrow> allowedOrigins b = [] \<Longrightarrow> allowedOrigins (fst (bridgeStep op b)) = []"
  by (cases op)
     (auto simp: setAllowedOrigins_def setIframeRef_def on_def off_def sendToIframe_def
        receive_def destroy_def flushMessageQueue_def Let_def split: option.splits)

lemma bridgeRun_keeps_open:
  "\<forall>op \<in> set ops. keepsOpen op \<Longrightarrow> allowedOrigins b = [] \<Longrightarrow>
     allowedOrigins (fst (bridgeRun ops b)) = []"
  by (induction ops arbitrary: b) (simp_all add: Let_def bridgeStep_keeps_open)

lemma bridgeStep_initialized:
  "isInitialized (fst (bridgeStep op b)) = isInitialized b"
  by (cases op)
     (auto simp: setAllowedOrigins_def setIframeRef_def on_def off_def sendToIframe_def
        receive_def destroy_def flushMessageQueue_def Let_def split: option.splits)

lemma bridgeRun_initialized:
  "isInitialized (fst (bridgeRun ops b)) = isInitialized b"
  by (induction ops arbitrary: b) (simp_all add: Let_def bridgeStep_initialized)

lemma receive_unauthorized:
  "allowedOrigins b \<noteq> [] \<Longrightarrow> origin \<notin> set (allowedOrigins b) \<Longrightarrow> receive origin data b = (b, [])"
  by (simp add: receive_def)

lemma receive_open:
  "allowedOrigins b = [] \<Longrightarrow> receive origin data b = receive origin' data b"
  by (simp add: receive_def)

lemma receive_dispatches:
  "isInitialized b \<Longrightarrow> allowedOrigins b = [] \<or> origin \<in> set (allowedOrigins b) \<Longrightarrow>
   validEnvelope message \<Longrightarrow> messageHandlers b (orEmpty (in_type message)) = Some handler \<Longrightarrow>
     calledOf (snd (receive origin (Some message) b)) = [(handler, message)]"
  by (auto simp: receive_def flushMessageQueue_def Let_def calledOf_append calledOf_flushLoop)

text \<open>
  Claim C6: once \<^verbatim>\<open>setAllowedOrigins\<close> has been called with a non-empty list, then,
  whatever happens next short of another \<^verbatim>\<open>setAllowedOrigins\<close>, an inbound message whose
  origin is not in the list has no effect at all: no handler is called and the bridge is
  unchanged. And as long as only empty lists have been set on a new bridge, the listener
  treats every origin alike, and a well-formed message of a type with a registered handler
  is handed to that handler.
\<close>

theorem origin_policy:
  fixes b :: "'h IframeBridge" and ops :: "('h, 'p) bridge_op list" and origins
  defines "restricted \<equiv> fst (bridgeRun (SetAllowedOrigins origins # ops) b)"
  defines "permissive \<equiv> fst (bridgeRun ops (newBridge True))"
  shows "(origins \<noteq> [] \<and> origin \<notin> set origins \<and> (\<forall>op \<in> set ops. \<not> isSetAllowedOrigins op)
      \<longrightarrow> receive origin data restricted = (restricted, []))
   \<and> ((\<forall>op \<in> set ops. keepsOpen op)
      \<longrightarrow> (\<forall>origin'. receive origin data permissive = receive origin' data permissive)
        \<and> (validEnvelope message
             \<and> messageHandlers permissive (orEmpty (in_type message)) = Some handler
            \<longrightarrow> calledOf (snd (receive origin (Some message) permissive)) = [(handler, message)]))"
proof (intro conjI impI allI)
  assume a: "origins \<noteq> [] \<and> origin \<notin> set origins \<and> (\<forall>op \<in> set ops. \<not> isSetAllowedOrigins op)"
  then have "allowedOrigins restricted = origins"
    by (simp add: restricted_def Let_def bridgeRun_keeps_origins setAllowedOrigins_def)
  with a show "receive origin data restricted = (restricted, [])"
    by (simp add: receive_unauthorized)
next
  fix origin'
  assume "\<forall>op \<in> set ops. keepsOpen op"
  then have "allowedOrigins permissive = []"
    by (simp add: permissive_def bridgeRun_keeps_open newBridge_def)
  then show "receive origin data permissive = receive origin' data permissive"
    by (rule receive_open)
next
  assume k: "\<forall>op \<in> set ops. keepsOpen op"
    and v: "validEnvelope message
             \<and> messageHandlers permissive (orEmpty (in_type message)) = Some handler"
  from k have "allowedOrigins permissive = []"
    by (simp add: permissive_def bridgeRun_keeps_open newBridge_def)
  moreover have "isInitialized permissive"
    by (simp add: permissive_def bridgeRun_initialized newBridge_def)
  ultimately show "calledOf (snd (receive origin (Some message) permissive)) = [(handler, message)]"
    using v by (simp add: receive_dispatches)
qed

theorem origin_policy_witness:
  "receive ''http://evil.example'' (Some changedMessage)
      (fst (bridgeRun [SetAllowedOrigins [''http://localhost:3001''], On ''CONTENT_CHANGED'' (0::nat)]
         (newBridge True)))
    = (fst (bridgeRun [SetAllowedOrigins [''http://localhost:3001''], On ''CONTENT_CHANGED'' (0::nat)]
         (newBridge True)), [])
   \<and> calledOf (snd (receive ''http://evil.example'' (Some changedMessage)
        (fst (bridgeRun [On ''CONTENT_CHANGED'' (0::nat)] (newBridge True)))))
       = [(0, changedMessage)]"
  using origin_policy [where origins = "[''http://localhost:3001'']"
      and origin = "''http://evil.example''" and ops = "[On ''CONTENT_CHANGED'' (0::nat)]"
      and data = "Some changedMessage" and b = "newBridge True" and message = changedMessage
      and handler = 0]
  by (simp add: Let_def on_def newBridge_def changedMessage_def validEnvelope_def)

section \<open>Properties of the preview-side agent\<close>

lemma sendToEditor_inactive: "\<not> isInEditorMode a \<Longrightarrow> sendToEditor env r a = a"
  by (simp add: sendToEditor_def)

lemma selectBySelector_inactive: "inactive a \<Longrightarrow> inactive (selectBySelector env selector a)"
  by (auto simp: inactive_def selectBySelector_def selectFound_def Let_def sendToEditor_def
      split: option.splits)

lemma updateElementContent_inactive:
  "inactive a \<Longrightarrow> inactive (updateElementContent env eid content a)"
  by (auto simp: inactive_def updateElementContent_def Let_def sendToEditor_def
      split: option.splits)

lemma enterEditMode_inactive: "inactive a \<Longrightarrow> inactive (enterEditMode eid a)"
  by (auto simp: inactive_def enterEditMode_def split: option.splits)

lemma exitStep_inactive: "inactive a \<Longrightarrow> inactive (exitStep env i a)"
  by (auto simp: inactive_def exitStep_def Let_def sendToEditor_def)

lemma fold_exitStep_inactive: "inactive a \<Longrightarrow> inactive (fold (exitStep env) is a)"
  by (induction "is" arbitrary: a) (simp_all add: exitStep_inactive)

lemma exitEditMode_inactive: "inactive a \<Longrightarrow> inactive (exitEditMode env a)"
  by (simp add: exitEditMode_def fold_exitStep_inactive)

lemma handleEditorMessage_inactive:
  "inactive a \<Longrightarrow> c_type message \<noteq> ''EDITOR_READY'' \<Longrightarrow>
     inactive (handleEditorMessage env message a)"
  by (auto simp: handleEditorMessage_def selectBySelector_inactive updateElementContent_inactive
      enterEditMode_inactive exitEditMode_inactive split: option.splits)

lemma onClick_inactive: "\<not> isInEditorMode a \<Longrightarrow> onClick env target a = a"
  by (simp add: onClick_def)

lemma funpow_exitEditMode_inactive: "inactive a \<Longrightarrow> inactive (((exitEditMode env) ^^ n) a)"
  by (induction n) (simp_all add: exitEditMode_inactive)

lemma onBlur_inactive: "inactive a \<Longrightarrow> inactive (onBlur env i a)"
  by (simp add: onBlur_def funpow_exitEditMode_inactive)

lemma onKeyDown_inactive: "inactive a \<Longrightarrow> inactive (onKeyDown env i key shiftKey a)"
proof -
  assume a: "inactive a"
  then have "inactive (a\<lparr>keysPrevented := keysPrevented a + 1\<rparr>)"
    and "inactive (a\<lparr>keysPrevented := keysPrevented a + 1,
                     doc := (doc a)\<lparr>focused := None\<rparr>\<rparr>)"
    by (simp_all add: inactive_def)
  with a show ?thesis
    by (simp add: onKeyDown_def Let_def onBlur_inactive)
qed

lemma agentStep_inactive:
  "inactive a \<Longrightarrow> \<not> isEditorReady ev \<Longrightarrow> inactive (agentStep env ev a)"
proof (cases ev)
  case (Click target)
  assume "inactive a"
  with Click show ?thesis by (simp add: onClick_inactive inactive_def)
next
  case (Message origin data)
  assume a: "inactive a" and r: "\<not> isEditorReady ev"
  let ?a1 = "if \<not> present_str (editorOrigin a) \<and> includesStr origin ''localhost:3000''
             then a\<lparr>editorOrigin := Some origin\<rparr> else a"
  from a have a1: "inactive ?a1" by (simp add: inactive_def)
  show ?thesis
  proof (cases data)
    case None
    with Message a1 show ?thesis by (simp add: onMessage_def Let_def)
  next
    case (Some message)
    with Message r have "c_type message \<noteq> ''EDITOR_READY''" by simp
    from handleEditorMessage_inactive [OF a1 this, of env] a1 Message Some
    show ?thesis by (simp add: onMessage_def Let_def)
  qed
next
  case (Blur i)
  assume "inactive a"
  with Blur show ?thesis by (simp add: onBlur_inactive)
next
  case (KeyDown i key shiftKey)
  assume "inactive a"
  with KeyDown show ?thesis by (simp add: onKeyDown_inactive)
qed

lemma agentRun_inactive:
  "inactive a \<Longrightarrow> \<forall>ev \<in> set events. \<not> isEditorReady ev \<Longrightarrow> inactive (agentRun env events a)"
  by (induction events arbitrary: a) (simp_all add: agentStep_inactive)

lemma agentRun_clicks:
  "\<not> isInEditorMode a \<Longrightarrow> \<forall>ev \<in> set events. isClick ev \<Longrightarrow> agentRun env events a = a"
proof (induction events arbitrary: a)
  case Nil
  then show ?case by simp
next
  case (Cons ev events)
  then obtain target where "ev = Click target" by (cases ev) auto
  with Cons show ?case by (simp add: onClick_inactive)
qed

lemma newAgent_standalone:
  "\<not> embedded env \<Longrightarrow>
     newAgent env d = \<lparr>isInEditorMode = False, editorOrigin = None, selectedEl = None, doc = d,
                       outbox = [], prevented = 0, keysPrevented = 0\<rparr>"
  by (simp add: newAgent_def detectEditorMode_def)

text \<open>
  Claim C9, as stated, keeps an agent that is not embedded from ever changing the document
  or sending to a parent window, whatever clicks and messages follow. The message listener
  is installed all the same and does not test the mode: an \<^verbatim>\<open>UPDATE_CONTENT\<close> message
  rewrites the text of its element, and an \<^verbatim>\<open>EDITOR_READY\<close> message switches editor mode
  on, after which a click on a content block marks it and reports the selection to
  \<^verbatim>\<open>window.parent\<close>.
\<close>

theorem standalone_agent_counterexample:
  "\<not> embedded standalone
   \<and> textContent (elements (doc (newAgent standalone page)) ! 0) = ''Welcome''
   \<and> textContent (elements (doc (agentRun standalone
        [Message ''http://localhost:3001'' (Some updateCommand)] (newAgent standalone page))) ! 0)
       = ''Changed''
   \<and> map report (outbox (agentRun standalone
        [Message ''http://localhost:3000'' (Some readyCommand), Click 0] (newAgent standalone page)))
       = [ElementSelected (elementDataOf (headline\<lparr>title := ''Click to edit'',
                                                     dataEditorSelected := Some ''true''\<rparr>))]"
  by (simp add: standalone_def page_def headline_def updateCommand_def readyCommand_def
      newAgent_def detectEditorMode_def onMessage_def handleEditorMessage_def
      updateElementContent_def byEditorId_def modifyElement_def sendToEditor_def Let_def
      highlightEditableElements_def isEditable_def onClick_def closest_def selectFound_def)

text \<open>
  Claim C9, amended: when the previewed document is not embedded, the agent starts inactive
  and stays so until an \<^verbatim>\<open>EDITOR_READY\<close> message arrives. Over every sequence of clicks
  and inbound messages other than \<^verbatim>\<open>EDITOR_READY\<close> (blur and key events on elements
  included) it never sends a message to a parent window, never enters editor mode and never
  suppresses a click; and over every sequence of clicks alone the document and the selection
  stay as they were.
\<close>

theorem inactive_when_not_embedded:
  fixes env events d
  defines "final \<equiv> agentRun env events (newAgent env d)"
  assumes "\<not> embedded env" and "\<forall>ev \<in> set events. \<not> isEditorReady ev"
  shows "\<not> isInEditorMode final \<and> outbox final = [] \<and> prevented final = 0
     \<and> ((\<forall>ev \<in> set events. isClick ev) \<longrightarrow> doc final = d \<and> selectedEl final = None)"
proof -
  from assms(2) have start: "inactive (newAgent env d)"
    by (simp add: newAgent_standalone inactive_def)
  from agentRun_inactive [OF start assms(3)]
  have "inactive final" unfolding final_def .
  moreover have "doc final = d \<and> selectedEl final = None"
    if "\<forall>ev \<in> set events. isClick ev"
    unfolding final_def
    using agentRun_clicks [OF _ that, of "newAgent env d" env] assms(2)
    by (simp add: newAgent_standalone)
  ultimately show ?thesis by (simp add: inactive_def)
qed

theorem inactive_when_not_embedded_witness:
  "\<not> embedded standalone
   \<and> \<not> isInEditorMode (agentRun standalone
        [Click 0, Message ''http://localhost:3001'' (Some updateCommand), Click 0]
        (newAgent standalone page))
   \<and> outbox (agentRun standalone
        [Click 0, Message ''http://localhost:3001'' (Some updateCommand), Click 0]
        (newAgent standalone page)) = []
   \<and> prevented (agentRun standalone
        [Click 0, Message ''http://localhost:3001'' (Some updateCommand), Click 0]
        (newAgent standalone page)) = 0
   \<and> doc (agentRun standalone [Click 0, Click 0] (newAgent standalone page)) = page"
proof -
  have e: "\<not> embedded standalone" by (simp add: standalone_def)
  have r: "\<forall>ev \<in> set [Click 0, Message ''http://localhost:3001'' (Some updateCommand), Click 0].
         \<not> isEditorReady ev"
    by (simp add: updateCommand_def)
  have r2: "\<forall>ev \<in> set [Click 0, Click 0]. \<not> isEditorReady ev" by simp
  have c: "\<forall>ev \<in> set [Click 0, Click 0]. isClick ev" by simp
  from inactive_when_not_embedded [OF e r, where d = page]
    inactive_when_not_embedded [OF e r2, where d = page] e r c
  show ?thesis by simp
qed

end
